theory Spec2Isabelle
  imports Main "HOL-Library.Word"
begin

unbundle bit_operations_syntax

section \<open>C types\<close>

text \<open>
  \<open>uint8_t\<close>, \<open>uint32_t\<close>, \<open>unsigned int\<close> and \<open>in_addr_t\<close> are words of their width.
  A C \<open>int\<close> is a 32-bit word read in two's complement (\<open>sint\<close>, \<open>\<le>s\<close>, \<open><s\<close>);
  arithmetic on it wraps, which is what the supported targets compute where C itself
  leaves signed overflow undefined.  \<open>time_t\<close> is the signed 64-bit \<open>long\<close> of the LP64
  targets, a word read in two's complement in the same way; an \<open>int\<close> added to it is
  sign-extended first (\<open>scast\<close>).
\<close>

type_synonym uint8_t = "8 word"
type_synonym uint32_t = "32 word"
type_synonym in_addr_t = "32 word"
type_synonym c_int = "32 word"
type_synonym time_t = "64 word"

datatype error =
    M_USAGE string   \<comment> \<open>\<open>msg (M_USAGE, ...)\<close>: options error, the process exits\<close>
  | ASSERT_failed    \<comment> \<open>\<open>ASSERT (...)\<close> with a false argument\<close>
  | Bad_pointer      \<comment> \<open>dereference of NULL or of freed memory\<close>

section \<open>string.h\<close>

text \<open>
  An array is the list of its bytes.  \<open>memcmp (s1, s2, n)\<close> looks at the first \<open>n\<close>
  bytes of both arrays and returns the sign of the first difference; when either array
  has fewer than \<open>n\<close> bytes the read runs past the object and there is no result.
\<close>

fun bytes_cmp :: "uint8_t list \<Rightarrow> uint8_t list \<Rightarrow> int" where
  "bytes_cmp (x # xs) (y # ys) =
     (if x = y then bytes_cmp xs ys else if x < y then - 1 else 1)"
| "bytes_cmp _ _ = 0"

definition memcmp :: "uint8_t list \<Rightarrow> uint8_t list \<Rightarrow> nat \<Rightarrow> int option" where
  "memcmp s1 s2 n =
     (if n \<le> length s1 \<and> n \<le> length s2 then Some (bytes_cmp (take n s1) (take n s2))
      else None)"

section \<open>mroute.h: addresses\<close>

definition MR_MAX_ADDR_LEN :: nat where
  "MR_MAX_ADDR_LEN = 20"

definition MR_ADDR_IPV4 :: uint8_t where
  "MR_ADDR_IPV4 = 2"

record mroute_addr =
  len :: uint8_t
  unused :: uint8_t
  type :: uint8_t
  netbits :: uint8_t
  addr :: "uint8_t list"

text \<open>
  What the declaration \<open>uint8_t addr[MR_MAX_ADDR_LEN]\<close> and the comment on \<open>len\<close>
  ("length of address") say of a value of the struct: the array has 20 bytes and \<open>len\<close>
  counts bytes of it.
\<close>

definition mroute_addr_wf :: "mroute_addr \<Rightarrow> bool" where
  "mroute_addr_wf a \<longleftrightarrow> length (addr a) = MR_MAX_ADDR_LEN \<and> unat (len a) \<le> MR_MAX_ADDR_LEN"

definition mroute_addr_equal :: "mroute_addr \<Rightarrow> mroute_addr \<Rightarrow> bool option" where
  "mroute_addr_equal a1 a2 =
     (if type a1 \<noteq> type a2 then Some False
      else if netbits a1 \<noteq> netbits a2 then Some False
      else if len a1 \<noteq> len a2 then Some False
      else map_option (\<lambda>c. c = 0) (memcmp (addr a1) (addr a2) (unat (len a1))))"

text \<open>
  The struct in memory, field after field.  \<open>mroute_addr_hash_ptr\<close> is the address of
  the \<open>type\<close> field, at offset 2: the model gives the bytes of the struct from there on
  ("depends on ordering of struct mroute_addr").
\<close>

definition mroute_addr_bytes :: "mroute_addr \<Rightarrow> uint8_t list" where
  "mroute_addr_bytes a = [len a, unused a, type a, netbits a] @ addr a"

definition mroute_addr_hash_ptr :: "mroute_addr \<Rightarrow> uint8_t list" where
  "mroute_addr_hash_ptr a = drop 2 (mroute_addr_bytes a)"

definition mroute_addr_hash_len :: "mroute_addr \<Rightarrow> uint32_t" where
  "mroute_addr_hash_len a = ucast (len a) + 2"

text \<open>The bytes a hash over \<open>mroute_addr_hash_len\<close> bytes at \<open>mroute_addr_hash_ptr\<close> reads.\<close>

definition mroute_addr_hash_region :: "mroute_addr \<Rightarrow> uint8_t list option" where
  "mroute_addr_hash_region a =
     (let p = mroute_addr_hash_ptr a; n = unat (mroute_addr_hash_len a)
      in if n \<le> length p then Some (take n p) else None)"

text \<open>
  Modelled from the spec: the body of \<open>mroute_addr_hash_function\<close> (mroute.c) and the
  hash \<open>hash_func\<close> it calls (list.c) are not under src/; mroute.h only declares the
  former.  The spec: "Hashing uses only the bytes starting at the kind field through len
  bytes of payload", "hash(k, seed) (Jenkins-style mix over the [kind..kind+len+2]
  region)".  The mix itself is a parameter: any function of the bytes read and the
  initial value.
\<close>

definition mroute_addr_hash_function ::
  "(uint8_t list \<Rightarrow> uint32_t \<Rightarrow> uint32_t) \<Rightarrow> mroute_addr \<Rightarrow> uint32_t \<Rightarrow> uint32_t option" where
  "mroute_addr_hash_function hash_func key iv =
     map_option (\<lambda>k. hash_func k iv) (mroute_addr_hash_region key)"

text \<open>A sample mix and two addresses, used below.\<close>

definition mix33 :: "uint8_t list \<Rightarrow> uint32_t \<Rightarrow> uint32_t" where
  "mix33 k iv = fold (\<lambda>b h. h * 33 + ucast b) k iv"

definition ipv4_10_8_0_6 :: mroute_addr where
  "ipv4_10_8_0_6 =
     \<lparr>len = 4, unused = 0, type = MR_ADDR_IPV4, netbits = 0,
      addr = [10, 8, 0, 6] @ replicate 16 0\<rparr>"

definition ipv4_10_8_0_6_dirty :: mroute_addr where
  "ipv4_10_8_0_6_dirty =
     \<lparr>len = 4, unused = 7, type = MR_ADDR_IPV4, netbits = 0,
      addr = [10, 8, 0, 6] @ replicate 16 255\<rparr>"

section \<open>session_id.h\<close>

record session_id =
  id_bytes :: "uint8_t list"   \<comment> \<open>\<open>unsigned char id[8]\<close>\<close>

definition sizeof_session_id :: nat where
  "sizeof_session_id = 8"

definition session_id_wf :: "session_id \<Rightarrow> bool" where
  "session_id_wf sid \<longleftrightarrow> length (id_bytes sid) = sizeof_session_id"

text \<open>
  Modelled from the spec: \<open>_session_id_zero\<close> is declared \<open>extern const\<close> in
  session_id.h and defined in session_id.c, which is not under src/.  The spec: "The
  correct intent is to detect a non-zero session id; the implementer should compare to
  \<open>_session_id_zero\<close> directly": the all-zero id.
\<close>

definition session_id_zero :: session_id where
  "session_id_zero = \<lparr>id_bytes = replicate sizeof_session_id 0\<rparr>"

definition session_id_equal :: "session_id \<Rightarrow> session_id \<Rightarrow> bool option" where
  "session_id_equal sid1 sid2 =
     map_option (\<lambda>c. \<not> (c \<noteq> 0)) (memcmp (id_bytes sid1) (id_bytes sid2) sizeof_session_id)"

text \<open>
  The third argument of \<open>memcmp\<close> in \<open>session_id_defined\<close> is the comparison
  \<open>sizeof (struct session_id) != 0\<close>, an \<open>int\<close> that is 1 or 0.
\<close>

definition session_id_defined_n :: nat where
  "session_id_defined_n = (if sizeof_session_id \<noteq> 0 then 1 else 0)"

definition session_id_defined :: "session_id \<Rightarrow> bool option" where
  "session_id_defined sid1 =
     map_option (\<lambda>c. c \<noteq> 0) (memcmp (id_bytes sid1) (id_bytes session_id_zero) session_id_defined_n)"

definition sid_low_zero :: session_id where
  "sid_low_zero = \<lparr>id_bytes = [0, 1, 2, 3, 4, 5, 6, 7]\<rparr>"

section \<open>mroute.h: the CIDR helper\<close>

text \<open>Of \<open>struct mroute_helper\<close>, the two fields a route's validity reads.\<close>

record mroute_helper =
  cache_generation :: uint32_t   \<comment> \<open>\<open>unsigned int\<close>, incremented when route added\<close>
  ageable_ttl_secs :: c_int      \<comment> \<open>host route cache entry time-to-live\<close>

section \<open>otime.h and schedule.h\<close>

text \<open>
  The functions below only hand a \<open>struct timeval\<close> to \<open>tv_delta\<close> and compare its
  seconds with a constant; its two members are integers.
\<close>

record timeval =
  tv_sec :: int
  tv_usec :: int

definition tv_usecs :: "timeval \<Rightarrow> int" where
  "tv_usecs tv = tv_sec tv * 1000000 + tv_usec tv"

text \<open>
  Modelled from the spec: \<open>tv_delta\<close> (otime.h) is not under src/.  The spec: "the core
  computes \<open>next_deadline \<minus> now\<close>": \<open>tv_delta (dest, t1, t2)\<close> stores \<open>t2 \<minus> t1\<close> as a
  \<open>timeval\<close>, microseconds within a second.
\<close>

definition tv_delta :: "timeval \<Rightarrow> timeval \<Rightarrow> timeval" where
  "tv_delta t1 t2 =
     (let d = tv_usecs t2 - tv_usecs t1
      in \<lparr>tv_sec = d div 1000000, tv_usec = d mod 1000000\<rparr>)"

text \<open>
  Modelled from the spec: \<open>struct schedule\<close> and \<open>schedule_get_earliest_wakeup\<close>
  (schedule.h) are not under src/.  The spec: "Priority queue of per-instance wakeup
  deadlines", "keyed on absolute wakeup time; tie-broken by insertion order",
  "\<open>earliest() \<rightarrow> Option<(entry, deadline)>\<close>".  The queue is the list of its entries in
  insertion order, each the address of an instance (its \<open>schedule_entry\<close> is the first
  member of the instance) with its deadline; the result is \<open>None\<close> for the C function's
  NULL, else the entry and the deadline the function stores through its second argument.
\<close>

type_synonym schedule = "(nat \<times> timeval) list"

definition tv_lt :: "timeval \<Rightarrow> timeval \<Rightarrow> bool" where
  "tv_lt t1 t2 \<longleftrightarrow> tv_sec t1 < tv_sec t2 \<or> (tv_sec t1 = tv_sec t2 \<and> tv_usec t1 < tv_usec t2)"

fun schedule_get_earliest_wakeup :: "schedule \<Rightarrow> (nat \<times> timeval) option" where
  "schedule_get_earliest_wakeup [] = None"
| "schedule_get_earliest_wakeup (e # es) =
     (case schedule_get_earliest_wakeup es of
        None \<Rightarrow> Some e
      | Some e' \<Rightarrow> if tv_lt (snd e') (snd e) then Some e' else Some e)"

section \<open>multi.h: instances, routes, the broker\<close>

text \<open>
  A pointer is \<open>None\<close> for NULL or the address of an object; the store maps the
  addresses of live objects to their values, and \<open>free\<close> removes the address.
\<close>

type_synonym instance_ptr = "nat option"
type_synonym route_ptr = "nat option"

text \<open>Of \<open>struct multi_instance\<close>, the lifecycle members.\<close>

record multi_instance =
  defined :: bool
  halt :: bool
  refcount :: c_int

record multi_route =
  route_addr :: mroute_addr        \<comment> \<open>the member \<open>addr\<close>\<close>
  route_instance :: instance_ptr   \<comment> \<open>the member \<open>instance\<close>\<close>
  flags :: uint32_t             \<comment> \<open>\<open>unsigned int\<close>\<close>
  cache_generation :: uint32_t  \<comment> \<open>\<open>unsigned int\<close>\<close>
  last_reference :: time_t

definition MULTI_ROUTE_CACHE :: uint32_t where
  "MULTI_ROUTE_CACHE = push_bit 8 1"

definition MULTI_ROUTE_AGEABLE :: uint32_t where
  "MULTI_ROUTE_AGEABLE = push_bit 9 1"

text \<open>Of \<open>struct multi_context\<close>, the members the functions below read or write.\<close>

record multi_context =
  schedule :: schedule
  route_helper :: mroute_helper   \<comment> \<open>the object \<open>m->route_helper\<close> points to\<close>
  pending :: instance_ptr
  earliest_wakeup :: instance_ptr

record store =
  live_instances :: "nat \<rightharpoonup> multi_instance"
  live_routes :: "nat \<rightharpoonup> multi_route"

definition instance_at :: "store \<Rightarrow> instance_ptr \<Rightarrow> error + multi_instance" where
  "instance_at s mi =
     (case mi of
        None \<Rightarrow> Inl Bad_pointer
      | Some a \<Rightarrow> (case live_instances s a of None \<Rightarrow> Inl Bad_pointer | Some v \<Rightarrow> Inr v))"

definition multi_instance_ready :: "instance_ptr \<Rightarrow> bool" where
  "multi_instance_ready mi \<longleftrightarrow> mi \<noteq> None"

definition multi_instance_inc_refcount :: "store \<Rightarrow> instance_ptr \<Rightarrow> error + store" where
  "multi_instance_inc_refcount s mi =
     (case mi of
        None \<Rightarrow> Inl Bad_pointer
      | Some a \<Rightarrow>
          (case live_instances s a of
             None \<Rightarrow> Inl Bad_pointer
           | Some v \<Rightarrow> Inr (s\<lparr>live_instances := (live_instances s)(a \<mapsto> v\<lparr>refcount := refcount v + 1\<rparr>)\<rparr>)))"

text \<open>
  \<open>if (--mi->refcount <= 0) { ASSERT (mi->halt); gc_free (&mi->gc); free (mi); }\<close>
\<close>

definition multi_instance_dec_refcount :: "store \<Rightarrow> instance_ptr \<Rightarrow> error + store" where
  "multi_instance_dec_refcount s mi =
     (case mi of
        None \<Rightarrow> Inl Bad_pointer
      | Some a \<Rightarrow>
          (case live_instances s a of
             None \<Rightarrow> Inl Bad_pointer
           | Some v \<Rightarrow>
               (let v' = v\<lparr>refcount := refcount v - 1\<rparr>
                in if refcount v' \<le>s 0
                   then (if halt v' then Inr (s\<lparr>live_instances := (live_instances s)(a := None)\<rparr>)
                         else Inl ASSERT_failed)
                   else Inr (s\<lparr>live_instances := (live_instances s)(a \<mapsto> v')\<rparr>))))"

definition multi_route_del :: "store \<Rightarrow> route_ptr \<Rightarrow> error + store" where
  "multi_route_del s route =
     (case route of
        None \<Rightarrow> Inl Bad_pointer
      | Some ra \<Rightarrow>
          (case live_routes s ra of
             None \<Rightarrow> Inl Bad_pointer
           | Some r \<Rightarrow>
               (case multi_instance_dec_refcount s (route_instance r) of
                  Inl e \<Rightarrow> Inl e
                | Inr s' \<Rightarrow> Inr (s'\<lparr>live_routes := (live_routes s')(ra := None)\<rparr>))))"

text \<open>
  \<open>now\<close> is the global \<open>time_t\<close> the event loop updates; it is an argument here.  The
  first test reads \<open>r->instance->halt\<close> before it looks at the pointer.  In the age test
  \<open>r->last_reference + m->route_helper->ageable_ttl_secs < now\<close> the sum is one of
  \<open>time_t\<close> and the comparison is signed.
\<close>

definition multi_route_defined ::
  "store \<Rightarrow> multi_context \<Rightarrow> multi_route \<Rightarrow> time_t \<Rightarrow> error + bool" where
  "multi_route_defined s m r now =
     (case instance_at s (route_instance r) of
        Inl e \<Rightarrow> Inl e
      | Inr mi \<Rightarrow>
          Inr (if halt mi \<or> \<not> multi_instance_ready (route_instance r) then False
               else if flags r AND MULTI_ROUTE_CACHE \<noteq> 0
                       \<and> cache_generation r \<noteq> mroute_helper.cache_generation (route_helper m)
                    then False
               else if flags r AND MULTI_ROUTE_AGEABLE \<noteq> 0
                       \<and> last_reference r + scast (ageable_ttl_secs (route_helper m)) <s now
                    then False
               else True))"

definition REAP_MAX_WAKEUP :: int where
  "REAP_MAX_WAKEUP = 10"

text \<open>
  \<open>multi_get_timeout (m, dest)\<close> returns the updated broker and the value stored into
  \<open>dest\<close>.  \<open>gettimeofday\<close> is what the call of that name yields: \<open>Some current\<close> on
  success, \<open>None\<close> when it returns non-zero and the \<open>ASSERT\<close> around it fails.
\<close>

definition multi_get_timeout ::
  "multi_context \<Rightarrow> timeval option \<Rightarrow> error + multi_context \<times> timeval" where
  "multi_get_timeout m gettimeofday =
     (case schedule_get_earliest_wakeup (schedule m) of
        Some (mi, tv) \<Rightarrow>
          (case gettimeofday of
             None \<Rightarrow> Inl ASSERT_failed
           | Some current \<Rightarrow>
               (let dest = tv_delta current tv
                in if tv_sec dest \<ge> REAP_MAX_WAKEUP
                   then Inr (m\<lparr>earliest_wakeup := None\<rparr>,
                             \<lparr>tv_sec = REAP_MAX_WAKEUP, tv_usec = 0\<rparr>)
                   else Inr (m\<lparr>earliest_wakeup := Some mi\<rparr>, dest)))
      | None \<Rightarrow>
          Inr (m\<lparr>earliest_wakeup := None\<rparr>, \<lparr>tv_sec = REAP_MAX_WAKEUP, tv_usec = 0\<rparr>))"

text \<open>Inputs used below.\<close>

definition helper_60 :: mroute_helper where
  "helper_60 = \<lparr>mroute_helper.cache_generation = 3, ageable_ttl_secs = 60\<rparr>"

definition broker_0 :: multi_context where
  "broker_0 =
     \<lparr>schedule = [(1, \<lparr>tv_sec = 1025, tv_usec = 0\<rparr>), (2, \<lparr>tv_sec = 1003, tv_usec = 250000\<rparr>)],
      route_helper = helper_60, pending = None, earliest_wakeup = None\<rparr>"



definition store_0 :: store where
  "store_0 =
     \<lparr>live_instances = [1 \<mapsto> \<lparr>defined = True, halt = False, refcount = 2\<rparr>,
                   2 \<mapsto> \<lparr>defined = True, halt = True, refcount = 1\<rparr>],
      live_routes = [7 \<mapsto> \<lparr>route_addr = ipv4_10_8_0_6, route_instance = Some 1,
                       flags = MULTI_ROUTE_CACHE OR MULTI_ROUTE_AGEABLE,
                       cache_generation = 3, last_reference = 950\<rparr>,
                8 \<mapsto> \<lparr>route_addr = ipv4_10_8_0_6, route_instance = Some 2, flags = 0,
                       cache_generation = 0, last_reference = 0\<rparr>]\<rparr>"

section \<open>crc32.c\<close>

text \<open>
  \<open>unsigned long\<close> is a word of some width \<open>'a\<close> (32 bits or more on the targets).  The
  two statics are the state: \<open>crc_table_empty\<close> (initially 1) and the 256 entries of
  \<open>crc_table\<close>.
\<close>

datatype 'w crc_state = Crc_state (crc_table_empty : bool) (crc_table : "'w list")

definition crc_poly_terms :: "nat list" where
  "crc_poly_terms = [0, 1, 2, 4, 5, 7, 8, 10, 11, 12, 16, 22, 23, 26]"

definition crc_poly :: "'a::len word" where
  "crc_poly = fold (\<lambda>n poly. poly OR push_bit (31 - n) 1) crc_poly_terms 0"

definition crc_table_step :: "'a::len word \<Rightarrow> 'a word" where
  "crc_table_step c = (if c AND 1 \<noteq> 0 then crc_poly XOR drop_bit 1 c else drop_bit 1 c)"

definition make_crc_table :: "'a::len word crc_state \<Rightarrow> 'a word crc_state" where
  "make_crc_table st =
     Crc_state False (map (\<lambda>n. (crc_table_step ^^ 8) (of_nat n)) [0 ..< 256])"

definition get_crc_table :: "'a::len word crc_state \<Rightarrow> 'a word list \<times> 'a word crc_state" where
  "get_crc_table st =
     (let st' = (if crc_table_empty st then make_crc_table st else st)
      in (crc_table st', st'))"

text \<open>
  \<open>DO1\<close> reads one byte through \<open>buf\<close> and advances it; \<open>None\<close> when the buffer has no
  byte left.  The index is \<open>((int)crc ^ (*buf++)) & 0xff\<close>.
\<close>

definition DO1 ::
  "'a::len word list \<Rightarrow> 'a word \<times> uint8_t list \<Rightarrow> ('a word \<times> uint8_t list) option" where
  "DO1 tbl s =
     (case s of
        (crc, []) \<Rightarrow> None
      | (crc, b # buf) \<Rightarrow>
          Some (tbl ! unat (((ucast crc :: c_int) XOR ucast b) AND 0xff) XOR drop_bit 8 crc, buf))"

definition DO8 ::
  "'a::len word list \<Rightarrow> 'a word \<times> uint8_t list \<Rightarrow> ('a word \<times> uint8_t list) option" where
  "DO8 tbl s =
     Option.bind (Option.bind (Option.bind (Option.bind (Option.bind (Option.bind
       (Option.bind (DO1 tbl s) (DO1 tbl)) (DO1 tbl)) (DO1 tbl)) (DO1 tbl)) (DO1 tbl))
       (DO1 tbl)) (DO1 tbl)"

text \<open>
  \<open>len\<close> is \<open>unsigned\<close>; both loops subtract from it only while it is large enough, so it
  is a natural number.  \<open>while (len >= 8) { DO8; len -= 8; }\<close>:
\<close>

function crc32_by8 ::
  "'a::len word list \<Rightarrow> 'a word \<times> uint8_t list \<Rightarrow> nat
     \<Rightarrow> (('a word \<times> uint8_t list) \<times> nat) option" where
  "crc32_by8 tbl s buf_len =
     (if buf_len \<ge> 8
      then (case DO8 tbl s of None \<Rightarrow> None | Some s' \<Rightarrow> crc32_by8 tbl s' (buf_len - 8))
      else Some (s, buf_len))"
  by pat_completeness auto
termination
  by (relation "measure (\<lambda>(tbl, s, buf_len). buf_len)") auto

text \<open>\<open>if (len) do { DO1; } while (--len);\<close>: the body runs once for each unit of \<open>len\<close>.\<close>

fun crc32_by1 ::
  "'a::len word list \<Rightarrow> 'a word \<times> uint8_t list \<Rightarrow> nat \<Rightarrow> ('a word \<times> uint8_t list) option" where
  "crc32_by1 tbl s 0 = Some s"
| "crc32_by1 tbl s (Suc buf_len) =
     (case DO1 tbl s of None \<Rightarrow> None | Some s' \<Rightarrow> crc32_by1 tbl s' buf_len)"

text \<open>
  \<open>crc32 (crc, buf, len)\<close>: \<open>buf\<close> is \<open>None\<close> for NULL, else the bytes it points to.  The
  result is paired with the statics after the call; there is no result when the loops
  read more bytes than \<open>buf\<close> holds.
\<close>

definition crc32 ::
  "'a::len word crc_state \<Rightarrow> 'a word \<Rightarrow> uint8_t list option \<Rightarrow> nat \<Rightarrow> 'a word option \<times> 'a word crc_state" where
  "crc32 st crc buf buf_len =
     (case buf of
        None \<Rightarrow> (Some 0, st)
      | Some bytes \<Rightarrow>
          (let st' = (if crc_table_empty st then make_crc_table st else st);
               tbl = crc_table st';
               crc = crc XOR 0xffffffff
           in (case crc32_by8 tbl (crc, bytes) buf_len of
                 None \<Rightarrow> (None, st')
               | Some (s, buf_len) \<Rightarrow>
                   (case crc32_by1 tbl s buf_len of
                      None \<Rightarrow> (None, st')
                    | Some (crc, _) \<Rightarrow> (Some (crc XOR 0xffffffff), st')))))"

definition crc_state_0 :: "'a::len word crc_state" where
  "crc_state_0 = Crc_state True (replicate 256 0)"

definition check_bytes :: "uint8_t list" where
  "check_bytes = [0x31, 0x32, 0x33, 0x34, 0x35, 0x36, 0x37, 0x38, 0x39]"

section \<open>Printing\<close>

text \<open>\<open>%d\<close> of \<open>buf_printf\<close>: the decimal digits of an \<open>int\<close>, with a sign when negative.\<close>

function dec_digits :: "nat \<Rightarrow> string" where
  "dec_digits n =
     (if n < 10 then [''0123456789'' ! n]
      else dec_digits (n div 10) @ [''0123456789'' ! (n mod 10)])"
  by pat_completeness auto
termination
  by (relation "measure id") auto

definition printf_d :: "int \<Rightarrow> string" where
  "printf_d i = (if i < 0 then ''-'' @ dec_digits (nat (- i)) else dec_digits (nat i))"

text \<open>
  Modelled from the spec: \<open>print_in_addr_t\<close> (socket.c) is declared in socket.h and
  defined outside src/.  The spec writes addresses as dotted quads of the host-order
  value ("gets \<open>10.8.0.6\<close>", "ifconfig \<open>NET+1 NET+2\<close>"); helper.c always passes flags 0.
\<close>

definition print_in_addr_t :: "in_addr_t \<Rightarrow> string" where
  "print_in_addr_t a =
     dec_digits (unat (drop_bit 24 a AND 0xff)) @ ''.'' @
     dec_digits (unat (drop_bit 16 a AND 0xff)) @ ''.'' @
     dec_digits (unat (drop_bit 8 a AND 0xff)) @ ''.'' @
     dec_digits (unat (a AND 0xff))"

section \<open>tun.c: device types\<close>

definition DEV_TYPE_UNDEF :: int where "DEV_TYPE_UNDEF = 0"
definition DEV_TYPE_NULL :: int where "DEV_TYPE_NULL = 1"
definition DEV_TYPE_TUN :: int where "DEV_TYPE_TUN = 2"
definition DEV_TYPE_TAP :: int where "DEV_TYPE_TAP = 3"

text \<open>
  A \<open>const char *\<close> is \<open>None\<close> for NULL or the characters before the terminating NUL.
  \<open>!strcmp (a, b)\<close> is equality; \<open>!strncmp (dev, m, strlen (m))\<close> says that \<open>m\<close> is a
  prefix of \<open>dev\<close>.
\<close>

definition is_dev_type :: "string option \<Rightarrow> string option \<Rightarrow> string option \<Rightarrow> error + bool" where
  "is_dev_type dev dev_type match_type =
     (case dev of
        None \<Rightarrow> Inl ASSERT_failed
      | Some d \<Rightarrow>
          (case match_type of
             None \<Rightarrow> Inl ASSERT_failed
           | Some m \<Rightarrow>
               (case dev_type of
                  Some t \<Rightarrow> Inr (t = m)
                | None \<Rightarrow> Inr (take (length m) d = m))))"

definition dev_type_string :: "string option \<Rightarrow> string option \<Rightarrow> error + string" where
  "dev_type_string dev dev_type =
     (case is_dev_type dev dev_type (Some ''tun'') of
        Inl e \<Rightarrow> Inl e
      | Inr True \<Rightarrow> Inr ''tun''
      | Inr False \<Rightarrow>
          (case is_dev_type dev dev_type (Some ''tap'') of
             Inl e \<Rightarrow> Inl e
           | Inr True \<Rightarrow> Inr ''tap''
           | Inr False \<Rightarrow>
               (case is_dev_type dev dev_type (Some ''null'') of
                  Inl e \<Rightarrow> Inl e
                | Inr True \<Rightarrow> Inr ''null''
                | Inr False \<Rightarrow> Inr ''[unknown-dev-type]'')))"

text \<open>
  Modelled from the spec: \<open>dev_type_enum\<close> is called by helper.c and defined nowhere
  under src/.  The spec: "\<open>open(dev_name, dev_type \<in> {tun, tap, null})\<close>"; the model
  classifies as \<open>dev_type_string\<close> above does and returns the \<open>DEV_TYPE_\<close> constant of
  proto.h in place of the name.
\<close>

definition dev_type_enum :: "string option \<Rightarrow> string option \<Rightarrow> error + int" where
  "dev_type_enum dev dev_type =
     (case is_dev_type dev dev_type (Some ''tun'') of
        Inl e \<Rightarrow> Inl e
      | Inr True \<Rightarrow> Inr DEV_TYPE_TUN
      | Inr False \<Rightarrow>
          (case is_dev_type dev dev_type (Some ''tap'') of
             Inl e \<Rightarrow> Inl e
           | Inr True \<Rightarrow> Inr DEV_TYPE_TAP
           | Inr False \<Rightarrow>
               (case is_dev_type dev dev_type (Some ''null'') of
                  Inl e \<Rightarrow> Inl e
                | Inr True \<Rightarrow> Inr DEV_TYPE_NULL
                | Inr False \<Rightarrow> Inr DEV_TYPE_UNDEF)))"

section \<open>helper.c: the options\<close>

text \<open>The \<open>PROTO_x\<close> enumeration of socket.h.\<close>

datatype proto =
    PROTO_NONE | PROTO_UDPv4 | PROTO_TCPv4_SERVER | PROTO_TCPv4_CLIENT | PROTO_TCPv4
  | PROTO_UDPv6 | PROTO_TCPv6_SERVER | PROTO_TCPv6_CLIENT | PROTO_TCPv6
  | PROTO_UNIX_DGRAM | PROTO_UNIX_STREAM

text \<open>
  Modelled from the spec: \<open>struct options\<close> and the constants \<open>MODE_POINT_TO_POINT\<close>,
  \<open>MODE_SERVER\<close> and \<open>PING_RESTART\<close> (options.h) are not under src/.  The record has the
  members helper.c reads and writes, typed as helper.c uses them (\<open>%d\<close> for the keepalive
  values, \<open>in_addr_t\<close> arithmetic for the addresses, strings from \<open>print_in_addr_t\<close>); the
  spec names the two modes ("server-mode", "client-mode" for point-to-point) and the
  ping actions it distinguishes ("ping-restart disconnect").
\<close>

datatype mode = MODE_POINT_TO_POINT | MODE_SERVER

datatype ping_action = PING_UNDEF | PING_EXIT | PING_RESTART

record options =
  dev :: "string option"
  dev_type :: "string option"
  mode :: mode
  proto :: proto
  client :: bool
  pull :: bool
  tls_server :: bool
  tls_client :: bool
  shared_secret_file :: "string option"
  server_defined :: bool
  server_network :: in_addr_t
  server_netmask :: in_addr_t
  server_bridge_defined :: bool
  server_bridge_ip :: in_addr_t
  server_bridge_netmask :: in_addr_t
  server_bridge_pool_start :: in_addr_t
  server_bridge_pool_end :: in_addr_t
  ifconfig_local :: "string option"
  ifconfig_remote_netmask :: "string option"
  ifconfig_pool_defined :: bool
  ifconfig_pool_start :: in_addr_t
  ifconfig_pool_end :: in_addr_t
  ifconfig_pool_netmask :: in_addr_t
  ifconfig_pool_linear :: bool
  enable_c2c :: bool
  routes :: "(string \<times> string) list"
  push_list :: "string list"
  keepalive_ping :: c_int
  keepalive_timeout :: c_int
  ping_send_timeout :: c_int
  ping_rec_timeout :: c_int
  ping_rec_timeout_action :: ping_action

text \<open>
  Modelled from the spec: \<open>push_option\<close> (push.c), \<open>rol_check_alloc\<close> and
  \<open>add_route_to_option_list\<close> (route.c) are not under src/.  The spec: "pushes per-client
  route", "installs route \<open>NET/MASK\<close>": each appends its entry to the list it keeps.
\<close>

definition push_option :: "options \<Rightarrow> string \<Rightarrow> options" where
  "push_option opt s = opt\<lparr>push_list := push_list opt @ [s]\<rparr>"

definition add_route_to_option_list ::
  "(string \<times> string) list \<Rightarrow> string \<Rightarrow> string \<Rightarrow> (string \<times> string) list" where
  "add_route_to_option_list l network netmask = l @ [(network, netmask)]"

text \<open>
  Modelled from the spec: \<open>netbits_to_netmask\<close> and \<open>netmask_to_netbits\<close> (route.c) are
  not under src/.  The spec speaks of "route \<open>NET/MASK\<close>", of "netbits" as the length of
  the network part and of an "invalid mask": the pair is accepted when the network has no
  bit outside the mask and the mask is \<open>netbits\<close> leading one-bits, and \<open>netbits\<close> is what
  the function stores; \<open>None\<close> stands for the result \<open>false\<close>, which leaves the caller's
  variable alone.
\<close>

definition netbits_to_netmask :: "nat \<Rightarrow> in_addr_t" where
  "netbits_to_netmask n = NOT (mask (32 - n))"

definition netmask_to_netbits :: "in_addr_t \<Rightarrow> in_addr_t \<Rightarrow> int option" where
  "netmask_to_netbits network netmask =
     (if network AND netmask = network
      then map_option int (find (\<lambda>i. netbits_to_netmask i = netmask) [0 ..< 33])
      else None)"

section \<open>helper.c: printing options\<close>

definition print_opt_route_gateway :: "in_addr_t \<Rightarrow> error + string" where
  "print_opt_route_gateway route_gateway =
     (if route_gateway = 0 then Inl ASSERT_failed
      else Inr (''route-gateway '' @ print_in_addr_t route_gateway))"

definition print_opt_route :: "in_addr_t \<Rightarrow> in_addr_t \<Rightarrow> error + string" where
  "print_opt_route network netmask =
     (if network = 0 then Inl ASSERT_failed
      else if netmask \<noteq> 0
      then Inr (''route '' @ print_in_addr_t network @ '' '' @ print_in_addr_t netmask)
      else Inr (''route '' @ print_in_addr_t network))"

definition print_str_int :: "string \<Rightarrow> c_int \<Rightarrow> string" where
  "print_str_int str i = str @ '' '' @ printf_d (sint i)"

definition helper_add_route :: "in_addr_t \<Rightarrow> in_addr_t \<Rightarrow> options \<Rightarrow> options" where
  "helper_add_route network netmask opt =
     opt\<lparr>routes := add_route_to_option_list (routes opt)
                      (print_in_addr_t network) (print_in_addr_t netmask)\<rparr>"

text \<open>
  \<open>verify_common_subnet\<close> only reports: the result is the usage error when the two
  addresses differ under the mask.
\<close>

definition verify_common_subnet ::
  "string \<Rightarrow> in_addr_t \<Rightarrow> in_addr_t \<Rightarrow> in_addr_t \<Rightarrow> error + unit" where
  "verify_common_subnet opt_name a b subnet =
     (if a AND subnet \<noteq> b AND subnet
      then Inl (M_USAGE ''Options Error: %s IP addresses %s and %s are not in the same %s subnet'')
      else Inr ())"

text \<open>Sequencing of steps that may end the run.\<close>

definition and_then :: "error + 'a \<Rightarrow> ('a \<Rightarrow> error + 'b) \<Rightarrow> error + 'b" where
  "and_then r f = (case r of Inl e \<Rightarrow> Inl e | Inr x \<Rightarrow> f x)"

section \<open>helper.c: \<open>helper_client_server\<close>\<close>

text \<open>
  The build has \<open>P2MP\<close>.  \<open>msg (M_USAGE, ...)\<close> ends the run with the message (the spec:
  configuration errors "fail fast at startup with a human-readable single-line error"),
  so the first test that fires decides; the text is the format string.  The constant
  \<open>IFCONFIG_POOL_MIN_NETBITS\<close> (pool.h) is not under src/ and is an argument.

  The branch \<open>if (dev == DEV_TYPE_TUN)\<close> of the \<open>server\<close> directive:
\<close>

definition server_tun :: "int \<Rightarrow> options \<Rightarrow> error + options" where
  "server_tun nbits opt =
     (let pool_end_reserve = (4 :: c_int)
      in if nbits > 29
         then Inl (M_USAGE ''Options Error: --server directive when used with --dev tun must define a subnet of %s or lower'')
         else
           (let pool_end_reserve = (if nbits = 29 then 0 else pool_end_reserve);
                opt1 = opt\<lparr>mode := MODE_SERVER,
                           tls_server := True,
                           ifconfig_local := Some (print_in_addr_t (server_network opt + 1)),
                           ifconfig_remote_netmask := Some (print_in_addr_t (server_network opt + 2)),
                           ifconfig_pool_defined := True,
                           ifconfig_pool_start := server_network opt + 4,
                           ifconfig_pool_end :=
                             (server_network opt OR NOT (server_netmask opt)) - pool_end_reserve\<rparr>;
                opt2 = helper_add_route (server_network opt1) (server_netmask opt1) opt1
            in if enable_c2c opt2
               then and_then (print_opt_route (server_network opt2) (server_netmask opt2))
                      (\<lambda>s. Inr (push_option opt2 s))
               else if \<not> ifconfig_pool_linear opt2
               then and_then (print_opt_route (server_network opt2 + 1) 0)
                      (\<lambda>s. Inr (push_option opt2 s))
               else Inr opt2))"

text \<open>The branch \<open>else if (dev == DEV_TYPE_TAP)\<close>:\<close>

definition server_tap :: "int \<Rightarrow> options \<Rightarrow> error + options" where
  "server_tap nbits opt =
     (if nbits \<ge> 30
      then Inl (M_USAGE ''Options Error: --server directive when used with --dev tap must define a subnet of %s or lower'')
      else
        (let opt1 = opt\<lparr>mode := MODE_SERVER,
                        tls_server := True,
                        ifconfig_local := Some (print_in_addr_t (server_network opt + 1)),
                        ifconfig_remote_netmask := Some (print_in_addr_t (server_netmask opt)),
                        ifconfig_pool_defined := True,
                        ifconfig_pool_start := server_network opt + 2,
                        ifconfig_pool_end := (server_network opt OR NOT (server_netmask opt)) - 1,
                        ifconfig_pool_netmask := server_netmask opt\<rparr>
         in and_then (print_opt_route_gateway (server_network opt1 + 1))
              (\<lambda>s. Inr (push_option opt1 s))))"

text \<open>The block under \<open>if (o->server_defined)\<close>:\<close>

definition server_directive :: "int \<Rightarrow> int \<Rightarrow> options \<Rightarrow> error + options" where
  "server_directive IFCONFIG_POOL_MIN_NETBITS dev_enum opt =
     (if client opt
      then Inl (M_USAGE ''Options Error: --server and --client cannot be used together'')
      else if server_bridge_defined opt
      then Inl (M_USAGE ''Options Error: --server and --server-bridge cannot be used together'')
      else if shared_secret_file opt \<noteq> None
      then Inl (M_USAGE ''Options Error: --server and --secret cannot be used together (you must use SSL/TLS keys)'')
      else if ifconfig_pool_defined opt
      then Inl (M_USAGE ''Options Error: --server already defines an ifconfig-pool, so you can't also specify --ifconfig-pool explicitly'')
      else if \<not> (dev_enum = DEV_TYPE_TAP \<or> dev_enum = DEV_TYPE_TUN)
      then Inl (M_USAGE ''Options Error: --server directive only makes sense with --dev tun or --dev tap'')
      else
        (let (status, nbits) =
               (case netmask_to_netbits (server_network opt) (server_netmask opt) of
                  None \<Rightarrow> (False, - 2)
                | Some n \<Rightarrow> (True, n))
         in if \<not> status
            then Inl (M_USAGE ''Options Error: --server directive network/netmask combination is invalid'')
            else if nbits < 0
            then Inl (M_USAGE ''Options Error: --server directive netmask is invalid'')
            else if nbits < IFCONFIG_POOL_MIN_NETBITS
            then Inl (M_USAGE ''Options Error: --server directive netmask allows for too many host addresses (subnet must be %s or higher)'')
            else
              and_then
                (if dev_enum = DEV_TYPE_TUN then server_tun nbits opt
                 else if dev_enum = DEV_TYPE_TAP then server_tap nbits opt
                 else Inl ASSERT_failed)
                (\<lambda>opt'. Inr (if proto opt' = PROTO_TCPv4
                               then opt'\<lparr>proto := PROTO_TCPv4_SERVER\<rparr> else opt'))))"

text \<open>The block under \<open>else if (o->server_bridge_defined)\<close>:\<close>

definition server_bridge_directive :: "int \<Rightarrow> options \<Rightarrow> error + options" where
  "server_bridge_directive dev_enum opt =
     (if client opt
      then Inl (M_USAGE ''Options Error: --server-bridge and --client cannot be used together'')
      else if ifconfig_pool_defined opt
      then Inl (M_USAGE ''Options Error: --server-bridge already defines an ifconfig-pool, so you can't also specify --ifconfig-pool explicitly'')
      else if shared_secret_file opt \<noteq> None
      then Inl (M_USAGE ''Options Error: --server-bridge and --secret cannot be used together (you must use SSL/TLS keys)'')
      else if dev_enum \<noteq> DEV_TYPE_TAP
      then Inl (M_USAGE ''Options Error: --server-bridge directive only makes sense with --dev tap'')
      else
        and_then (verify_common_subnet ''--server-bridge'' (server_bridge_ip opt)
                    (server_bridge_pool_start opt) (server_bridge_netmask opt)) (\<lambda>_.
        and_then (verify_common_subnet ''--server-bridge'' (server_bridge_pool_start opt)
                    (server_bridge_pool_end opt) (server_bridge_netmask opt)) (\<lambda>_.
        and_then (verify_common_subnet ''--server-bridge'' (server_bridge_ip opt)
                    (server_bridge_pool_end opt) (server_bridge_netmask opt)) (\<lambda>_.
          (let opt1 = opt\<lparr>mode := MODE_SERVER,
                          tls_server := True,
                          ifconfig_pool_defined := True,
                          ifconfig_pool_start := server_bridge_pool_start opt,
                          ifconfig_pool_end := server_bridge_pool_end opt,
                          ifconfig_pool_netmask := server_bridge_netmask opt\<rparr>
           in and_then (print_opt_route_gateway (server_bridge_ip opt1))
                (\<lambda>s. (let opt2 = push_option opt1 s
                       in Inr (if proto opt2 = PROTO_TCPv4
                               then opt2\<lparr>proto := PROTO_TCPv4_SERVER\<rparr> else opt2))))))))"

text \<open>The block under \<open>else if (o->client)\<close>:\<close>

definition client_directive :: "options \<Rightarrow> options" where
  "client_directive opt =
     (let opt1 = opt\<lparr>pull := True, tls_client := True\<rparr>
      in if proto opt1 = PROTO_TCPv4 then opt1\<lparr>proto := PROTO_TCPv4_CLIENT\<rparr> else opt1)"

definition helper_client_server :: "int \<Rightarrow> options \<Rightarrow> error + options" where
  "helper_client_server IFCONFIG_POOL_MIN_NETBITS opt =
     and_then (dev_type_enum (dev opt) (dev_type opt)) (\<lambda>dev_enum.
     and_then
       (if server_defined opt then server_directive IFCONFIG_POOL_MIN_NETBITS dev_enum opt
        else if server_bridge_defined opt then server_bridge_directive dev_enum opt
        else if client opt then Inr (client_directive opt)
        else Inr opt)
       (\<lambda>opt'. if proto opt' = PROTO_TCPv4
               then Inl (M_USAGE ''Options Error: --proto tcp is ambiguous in this context.  Please specify --proto tcp-server or --proto tcp-client'')
               else Inr opt'))"

section \<open>helper.c: \<open>helper_keepalive\<close>\<close>

text \<open>
  The comparisons are those of \<open>int\<close>; \<open>o->keepalive_ping * 2\<close> and
  \<open>o->keepalive_timeout * 2\<close> are products of \<open>int\<close>.
\<close>

definition helper_keepalive :: "options \<Rightarrow> error + options" where
  "helper_keepalive opt =
     (if keepalive_ping opt \<noteq> 0 \<or> keepalive_timeout opt \<noteq> 0
      then
        (if keepalive_ping opt \<le>s 0 \<or> keepalive_timeout opt \<le>s 0
         then Inl (M_USAGE ''Options Error: --keepalive parameters must be > 0'')
         else if keepalive_timeout opt <s keepalive_ping opt * 2
         then Inl (M_USAGE ''Options Error: the second parameter to --keepalive (restart timeout=%d) must be at least twice the value of the first parameter (ping interval=%d).  A ratio of 1:5 or 1:6 would be even better.  Recommended setting is --keepalive 10 60.'')
         else if ping_send_timeout opt \<noteq> 0 \<or> ping_rec_timeout opt \<noteq> 0
         then Inl (M_USAGE ''Options Error: --keepalive conflicts with --ping, --ping-exit, or --ping-restart.  If you use --keepalive, you don't need any of the other --ping directives.'')
         else if mode opt = MODE_POINT_TO_POINT
         then Inr (opt\<lparr>ping_rec_timeout_action := PING_RESTART,
                       ping_send_timeout := keepalive_ping opt,
                       ping_rec_timeout := keepalive_timeout opt\<rparr>)
         else if mode opt = MODE_SERVER
         then
           (let opt1 = opt\<lparr>ping_rec_timeout_action := PING_RESTART,
                           ping_send_timeout := keepalive_ping opt,
                           ping_rec_timeout := keepalive_timeout opt * 2\<rparr>;
                opt2 = push_option opt1 (print_str_int ''ping'' (keepalive_ping opt1))
            in Inr (push_option opt2 (print_str_int ''ping-restart'' (keepalive_timeout opt2))))
         else Inl ASSERT_failed)
      else Inr opt)"

text \<open>Configurations used below.\<close>

definition options_0 :: options where
  "options_0 =
     \<lparr>dev = Some ''tun0'', dev_type = None, mode = MODE_POINT_TO_POINT, proto = PROTO_UDPv4,
      client = False, pull = False, tls_server = False, tls_client = False,
      shared_secret_file = None,
      server_defined = False, server_network = 0, server_netmask = 0,
      server_bridge_defined = False, server_bridge_ip = 0, server_bridge_netmask = 0,
      server_bridge_pool_start = 0, server_bridge_pool_end = 0,
      ifconfig_local = None, ifconfig_remote_netmask = None,
      ifconfig_pool_defined = False, ifconfig_pool_start = 0, ifconfig_pool_end = 0,
      ifconfig_pool_netmask = 0, ifconfig_pool_linear = False, enable_c2c = False,
      routes = [], push_list = [],
      keepalive_ping = 0, keepalive_timeout = 0, ping_send_timeout = 0,
      ping_rec_timeout = 0, ping_rec_timeout_action = PING_UNDEF\<rparr>"

text \<open>\<open>server 10.8.0.0 255.255.255.0\<close> and \<open>server 10.8.0.0 255.255.255.248\<close>.\<close>

definition server_24 :: options where
  "server_24 = options_0\<lparr>server_defined := True, server_network := 0x0A080000,
                         server_netmask := 0xFFFFFF00\<rparr>"

definition server_29 :: options where
  "server_29 = options_0\<lparr>server_defined := True, server_network := 0x0A080000,
                         server_netmask := 0xFFFFFFF8\<rparr>"

text \<open>
  \<open>keepalive 10 60\<close>, \<open>keepalive 10 15\<close>, \<open>keepalive 1 1073741824\<close> and
  \<open>keepalive 1073741824 5\<close>.
\<close>

definition keepalive_10_60 :: options where
  "keepalive_10_60 = options_0\<lparr>keepalive_ping := 10, keepalive_timeout := 60\<rparr>"

definition keepalive_10_15 :: options where
  "keepalive_10_15 = options_0\<lparr>keepalive_ping := 10, keepalive_timeout := 15\<rparr>"

definition keepalive_1_2p30 :: options where
  "keepalive_1_2p30 =
     options_0\<lparr>mode := MODE_SERVER, keepalive_ping := 1, keepalive_timeout := 0x40000000\<rparr>"

definition keepalive_2p30_5 :: options where
  "keepalive_2p30_5 = options_0\<lparr>keepalive_ping := 0x40000000, keepalive_timeout := 5\<rparr>"

section \<open>Comparing bytes\<close>

lemma bytes_cmp_eq_0:
  "length xs = length ys \<Longrightarrow> bytes_cmp xs ys = 0 \<longleftrightarrow> xs = ys"
  by (induction xs ys rule: list_induct2) auto

lemma memcmp_eq_0:
  assumes "n \<le> length s1" "n \<le> length s2"
  shows "memcmp s1 s2 n = Some c \<Longrightarrow> c = 0 \<longleftrightarrow> take n s1 = take n s2"
  using assms by (auto simp: memcmp_def bytes_cmp_eq_0)

lemma memcmp_Some_bounds:
  "memcmp s1 s2 n = Some c \<Longrightarrow> n \<le> length s1 \<and> n \<le> length s2"
  by (simp add: memcmp_def split: if_splits)

lemma unat_uint8_less: "unat (x :: uint8_t) < 256"
  using unsigned_less [of x, where 'a = nat] by simp

lemma unat_hash_len: "unat (mroute_addr_hash_len a) = unat (len a) + 2"
  using unat_uint8_less [of "len a"]
  by (simp add: mroute_addr_hash_len_def unat_word_ariths unsigned_ucast_eq
      take_bit_nat_eq_self)

lemma hash_region_eq:
  "unat (len a) \<le> length (addr a) \<Longrightarrow>
   mroute_addr_hash_region a = Some (type a # netbits a # take (unat (len a)) (addr a))"
  by (simp add: mroute_addr_hash_region_def mroute_addr_hash_ptr_def mroute_addr_bytes_def
      unat_hash_len Let_def)

section \<open>Claims on addresses and session ids\<close>

text \<open>
  C5.  For two values of \<open>struct mroute_addr\<close>, \<open>mroute_addr_equal\<close> returns, and it
  returns true exactly when the two have the same \<open>type\<close>, the same \<open>netbits\<close>, the same
  \<open>len\<close> and the same first \<open>len\<close> bytes of \<open>addr\<close>.
\<close>

theorem mroute_addr_equal_iff:
  assumes "mroute_addr_wf a1" and "mroute_addr_wf a2"
  shows "mroute_addr_equal a1 a2 =
         Some (type a1 = type a2 \<and> netbits a1 = netbits a2 \<and> len a1 = len a2 \<and>
               take (unat (len a1)) (addr a1) = take (unat (len a1)) (addr a2))"
proof (cases "type a1 = type a2 \<and> netbits a1 = netbits a2 \<and> len a1 = len a2")
  case False
  then show ?thesis by (auto simp: mroute_addr_equal_def)
next
  case True
  from assms have b: "unat (len a1) \<le> length (addr a1)" "unat (len a1) \<le> length (addr a2)"
    by (simp_all add: mroute_addr_wf_def)
  then have "memcmp (addr a1) (addr a2) (unat (len a1)) =
             Some (bytes_cmp (take (unat (len a1)) (addr a1)) (take (unat (len a1)) (addr a2)))"
    by (simp add: memcmp_def)
  with True b show ?thesis
    by (simp add: mroute_addr_equal_def bytes_cmp_eq_0)
qed

theorem mroute_addr_equal_iff_witness:
  "mroute_addr_wf ipv4_10_8_0_6 \<and> mroute_addr_wf ipv4_10_8_0_6_dirty \<and>
   mroute_addr_equal ipv4_10_8_0_6 ipv4_10_8_0_6_dirty = Some True"
proof -
  have h1: "mroute_addr_wf ipv4_10_8_0_6"
    by (simp add: mroute_addr_wf_def ipv4_10_8_0_6_def MR_MAX_ADDR_LEN_def)
  have h2: "mroute_addr_wf ipv4_10_8_0_6_dirty"
    by (simp add: mroute_addr_wf_def ipv4_10_8_0_6_dirty_def MR_MAX_ADDR_LEN_def)
  from mroute_addr_equal_iff [OF h1 h2] h1 h2 show ?thesis
    by (simp add: ipv4_10_8_0_6_def ipv4_10_8_0_6_dirty_def)
qed

text \<open>
  C9.  When \<open>mroute_addr_equal\<close> returns true for two addresses, the bytes hashed for
  each (\<open>len + 2\<close> bytes from the \<open>type\<close> field on: \<open>type\<close>, \<open>netbits\<close> and the first
  \<open>len\<close> bytes of \<open>addr\<close>) are the same, and \<open>mroute_addr_hash_function\<close> returns the
  same value for both, whatever the mix \<open>hash_func\<close> and the initial value.
\<close>

theorem mroute_addr_equal_same_hash:
  assumes "mroute_addr_equal a1 a2 = Some True"
  shows "mroute_addr_hash_region a1 =
           Some (type a1 # netbits a1 # take (unat (len a1)) (addr a1)) \<and>
         mroute_addr_hash_region a2 = mroute_addr_hash_region a1 \<and>
         (\<forall>iv. mroute_addr_hash_function hash_func a1 iv =
                 mroute_addr_hash_function hash_func a2 iv \<and>
               mroute_addr_hash_function hash_func a1 iv \<noteq> None)"
proof -
  from assms have eq: "type a1 = type a2" "netbits a1 = netbits a2" "len a1 = len a2"
    by (auto simp: mroute_addr_equal_def split: if_splits)
  with assms obtain c where c: "memcmp (addr a1) (addr a2) (unat (len a1)) = Some c" "c = 0"
    by (auto simp: mroute_addr_equal_def)
  from memcmp_Some_bounds [OF c(1)]
  have b: "unat (len a1) \<le> length (addr a1)" "unat (len a1) \<le> length (addr a2)"
    by simp_all
  from memcmp_eq_0 [OF b c(1)] c(2)
  have pre: "take (unat (len a1)) (addr a1) = take (unat (len a1)) (addr a2)"
    by simp
  have r1: "mroute_addr_hash_region a1 =
            Some (type a1 # netbits a1 # take (unat (len a1)) (addr a1))"
    using b(1) by (rule hash_region_eq)
  have r2: "mroute_addr_hash_region a2 =
            Some (type a2 # netbits a2 # take (unat (len a2)) (addr a2))"
    using b(2) eq(3) by (intro hash_region_eq) simp
  from r1 r2 eq pre have same: "mroute_addr_hash_region a2 = mroute_addr_hash_region a1"
    by simp
  from r1 same show ?thesis
    by (simp add: mroute_addr_hash_function_def)
qed

theorem mroute_addr_equal_same_hash_witness:
  "mroute_addr_equal ipv4_10_8_0_6 ipv4_10_8_0_6_dirty = Some True \<and>
   mroute_addr_hash_region ipv4_10_8_0_6_dirty = Some [MR_ADDR_IPV4, 0, 10, 8, 0, 6] \<and>
   mroute_addr_hash_function mix33 ipv4_10_8_0_6 5381 =
     mroute_addr_hash_function mix33 ipv4_10_8_0_6_dirty 5381 \<and>
   mroute_addr_hash_function mix33 ipv4_10_8_0_6 5381 \<noteq> None"
proof -
  have h: "mroute_addr_equal ipv4_10_8_0_6 ipv4_10_8_0_6_dirty = Some True"
    by (simp add: mroute_addr_equal_def memcmp_def ipv4_10_8_0_6_def ipv4_10_8_0_6_dirty_def)
  note t = mroute_addr_equal_same_hash [OF h, of mix33]
  from t have "mroute_addr_hash_region ipv4_10_8_0_6_dirty =
               Some [MR_ADDR_IPV4, 0, 10, 8, 0, 6]"
    by (simp add: ipv4_10_8_0_6_def)
  moreover from t have "mroute_addr_hash_function mix33 ipv4_10_8_0_6 5381 =
                        mroute_addr_hash_function mix33 ipv4_10_8_0_6_dirty 5381"
    by blast
  moreover from t have "mroute_addr_hash_function mix33 ipv4_10_8_0_6 5381 \<noteq> None"
    by blast
  ultimately show ?thesis
    using h by blast
qed

text \<open>
  C6.  The size handed to \<open>memcmp\<close> by \<open>session_id_defined\<close> is the value of
  \<open>sizeof (struct session_id) != 0\<close>, which is 1, so only the first byte of the id is
  compared with \<open>_session_id_zero\<close>: the result is whether that byte is non-zero, and an
  id whose first byte is zero is reported as not defined even when a later byte is
  non-zero (\<open>session_id_equal\<close> with the zero id tells the two apart).
\<close>

theorem session_id_defined_first_byte:
  assumes "session_id_wf sid"
  shows "session_id_defined_n = 1 \<and>
         session_id_defined sid = Some (id_bytes sid ! 0 \<noteq> 0) \<and>
         (id_bytes sid ! 0 = 0 \<and> (\<exists>i < 8. id_bytes sid ! i \<noteq> 0) \<longrightarrow>
            session_id_defined sid = Some False \<and>
            session_id_equal sid session_id_zero = Some False)"
proof -
  from assms obtain b bs where sid: "id_bytes sid = b # bs" and l: "length bs = 7"
    by (cases "id_bytes sid") (auto simp: session_id_wf_def sizeof_session_id_def)
  have n: "session_id_defined_n = 1"
    by (simp add: session_id_defined_n_def sizeof_session_id_def)
  have z: "id_bytes session_id_zero = 0 # replicate 7 0"
    by (simp add: session_id_zero_def sizeof_session_id_def eval_nat_numeral)
  have d: "session_id_defined sid = Some (id_bytes sid ! 0 \<noteq> 0)"
    by (auto simp: session_id_defined_def n z sid memcmp_def)
  have e: "session_id_equal sid session_id_zero = Some (id_bytes sid = replicate 8 0)"
    using l bytes_cmp_eq_0 [of "id_bytes sid" "replicate 8 0"]
    by (simp add: session_id_equal_def memcmp_def session_id_zero_def sizeof_session_id_def sid)
  have "id_bytes sid \<noteq> replicate 8 0" if "i < 8" "id_bytes sid ! i \<noteq> 0" for i
    using that by auto
  with n d e show ?thesis by auto
qed

theorem session_id_defined_first_byte_witness:
  "session_id_wf sid_low_zero \<and> id_bytes sid_low_zero ! 0 = 0 \<and>
   id_bytes sid_low_zero ! 1 \<noteq> 0 \<and> session_id_defined sid_low_zero = Some False \<and>
   session_id_equal sid_low_zero session_id_zero = Some False"
proof -
  have h: "session_id_wf sid_low_zero"
    by (simp add: session_id_wf_def sid_low_zero_def sizeof_session_id_def)
  have "\<exists>i < 8. id_bytes sid_low_zero ! i \<noteq> 0"
    by (rule exI [of _ 1]) (simp add: sid_low_zero_def)
  with session_id_defined_first_byte [OF h] h show ?thesis
    by (simp add: sid_low_zero_def)
qed

section \<open>Signed arithmetic on \<open>int\<close>\<close>

lemma sint_dec:
  fixes r :: c_int
  assumes "0 <s r"
  shows "sint (r - 1) = sint r - 1"
  using assms sint_lt [of r]
  by (simp add: word_sless_alt sint_word_ariths signed_take_bit_int_eq_self)

lemma sint_eq_1_iff:
  fixes r :: c_int
  shows "sint r = 1 \<longleftrightarrow> r = 1"
proof
  assume "sint r = 1"
  then have "word_of_int (sint r) = (word_of_int 1 :: c_int)" by simp
  then show "r = 1" by simp
qed simp

lemma dec_sle_0_iff:
  fixes r :: c_int
  assumes "0 <s r"
  shows "r - 1 \<le>s 0 \<longleftrightarrow> r = 1"
proof -
  have "r - 1 \<le>s 0 \<longleftrightarrow> sint r \<le> 1"
    using sint_dec [OF assms] by (simp add: word_sle_eq)
  also have "\<dots> \<longleftrightarrow> sint r = 1"
    using assms by (auto simp: word_sless_alt)
  finally show ?thesis by (simp add: sint_eq_1_iff)
qed

section \<open>Claims on live_routes, live_instances and the timeout\<close>

lemma MULTI_ROUTE_CACHE_bit: "w AND MULTI_ROUTE_CACHE \<noteq> 0 \<longleftrightarrow> bit w 8"
  using and_exp_eq_0_iff_not_bit [of w 8] by (simp add: MULTI_ROUTE_CACHE_def)

lemma MULTI_ROUTE_AGEABLE_bit: "w AND MULTI_ROUTE_AGEABLE \<noteq> 0 \<longleftrightarrow> bit w 9"
  using and_exp_eq_0_iff_not_bit [of w 9] by (simp add: MULTI_ROUTE_AGEABLE_def)

lemma sint_scast_int: "sint (scast (i :: c_int) :: time_t) = sint i"
  by (rule sint_up_scast) (simp add: is_up)

lemma sint_time_add:
  fixes t :: time_t
  assumes "- (2 ^ 63) \<le> sint t + sint i" and "sint t + sint i < 2 ^ 63"
  shows "sint (t + scast (i :: c_int)) = sint t + sint i"
  using assms
  by (simp add: sint_word_ariths sint_scast_int signed_take_bit_int_eq_self)

text \<open>
  Where the sum \<open>last_reference + ageable_ttl_secs\<close> is a value of \<open>time_t\<close>, the result
  for a route with a live instance is: not halted, and the cache generations agree if
  the route has \<open>MULTI_ROUTE_CACHE\<close>, and \<open>now\<close> minus \<open>last_reference\<close> is at most
  \<open>ageable_ttl_secs\<close> if it has \<open>MULTI_ROUTE_AGEABLE\<close>.
\<close>

lemma multi_route_defined_in_range:
  assumes "instance_at s (route_instance r) = Inr mi"
    and "- (2 ^ 63) \<le> sint (last_reference r) + sint (ageable_ttl_secs (route_helper m))"
    and "sint (last_reference r) + sint (ageable_ttl_secs (route_helper m)) < 2 ^ 63"
  shows "multi_route_defined s m r now =
         Inr (\<not> halt mi \<and>
              (flags r AND MULTI_ROUTE_CACHE \<noteq> 0 \<longrightarrow>
                 cache_generation r = mroute_helper.cache_generation (route_helper m)) \<and>
              (flags r AND MULTI_ROUTE_AGEABLE \<noteq> 0 \<longrightarrow>
                 sint now - sint (last_reference r)
                   \<le> sint (ageable_ttl_secs (route_helper m))))"
proof -
  from assms(1) have "route_instance r \<noteq> None"
    by (auto simp: instance_at_def split: option.splits)
  then have rdy: "multi_instance_ready (route_instance r)"
    by (simp add: multi_instance_ready_def)
  have "last_reference r + scast (ageable_ttl_secs (route_helper m)) <s now \<longleftrightarrow>
        \<not> sint now - sint (last_reference r) \<le> sint (ageable_ttl_secs (route_helper m))"
    using sint_time_add [OF assms(2,3)] by (auto simp: word_sless_alt)
  with assms(1) rdy show ?thesis
    by (auto simp: multi_route_defined_def)
qed

lemma multi_route_defined_examples:
  "multi_route_defined store_0 broker_0 (the (live_routes store_0 7)) 1000 = Inr True \<and>
   multi_route_defined store_0 broker_0 (the (live_routes store_0 7)) 1011 = Inr False"
  by (simp add: multi_route_defined_def instance_at_def multi_instance_ready_def store_0_def
      broker_0_def helper_60_def MULTI_ROUTE_CACHE_def MULTI_ROUTE_AGEABLE_def word_sless_alt)



lemma dec_refcount_live:
  assumes "live_instances s a = Some mi" and "0 <s refcount mi" and "refcount mi = 1 \<longrightarrow> halt mi"
  shows "multi_instance_dec_refcount s (Some a) =
         Inr (s\<lparr>live_instances :=
                  (live_instances s)(a := if refcount mi = 1 then None
                                     else Some (mi\<lparr>refcount := refcount mi - 1\<rparr>))\<rparr>)"
  using assms dec_sle_0_iff [OF assms(2)]
  by (simp add: multi_instance_dec_refcount_def Let_def)

lemma dec_refcount_assert:
  assumes "live_instances s a = Some mi" and "refcount mi = 1" and "\<not> halt mi"
  shows "multi_instance_dec_refcount s (Some a) = Inl ASSERT_failed"
  using assms by (simp add: multi_instance_dec_refcount_def Let_def)

text \<open>
  C7.  Take a live instance that holds at least one reference and obeys the invariant
  that its last reference is only dropped once it is halted.  Then
  \<open>multi_instance_dec_refcount\<close> returns without failing \<open>ASSERT (mi->halt)\<close>; the instance
  is freed exactly when the decrement brings \<open>refcount\<close> to zero, and it is halted then;
  otherwise it stays, with \<open>refcount\<close> one less.  No other instance and no route changes.
  \<open>multi_route_del\<close> does the same to the instance its route points to and frees the
  route.
\<close>

theorem multi_instance_freed_at_zero:
  assumes "live_instances s a = Some mi"
    and "0 <s refcount mi"
    and "refcount mi = 1 \<longrightarrow> halt mi"
  shows "\<exists>s'. multi_instance_dec_refcount s (Some a) = Inr s' \<and>
           (live_instances s' a = None \<longleftrightarrow> refcount mi - 1 = 0) \<and>
           (live_instances s' a = None \<longrightarrow> halt mi) \<and>
           (refcount mi - 1 \<noteq> 0 \<longrightarrow>
              live_instances s' a = Some (mi\<lparr>refcount := refcount mi - 1\<rparr>)) \<and>
           (\<forall>b. b \<noteq> a \<longrightarrow> live_instances s' b = live_instances s b) \<and>
           live_routes s' = live_routes s \<and>
           (\<forall>ra r. live_routes s ra = Some r \<and> route_instance r = Some a \<longrightarrow>
              multi_route_del s (Some ra) = Inr (s'\<lparr>live_routes := (live_routes s)(ra := None)\<rparr>))"
proof -
  let ?s' = "s\<lparr>live_instances :=
                 (live_instances s)(a := if refcount mi = 1 then None
                                    else Some (mi\<lparr>refcount := refcount mi - 1\<rparr>))\<rparr>"
  have d: "multi_instance_dec_refcount s (Some a) = Inr ?s'"
    using assms by (rule dec_refcount_live)
  have z: "refcount mi - 1 = 0 \<longleftrightarrow> refcount mi = 1"
    by auto
  have del: "multi_route_del s (Some ra) = Inr (?s'\<lparr>live_routes := (live_routes s)(ra := None)\<rparr>)"
    if "live_routes s ra = Some r" "route_instance r = Some a" for ra r
    using that d by (simp add: multi_route_del_def)
  show ?thesis
  proof (intro exI conjI)
    show "multi_instance_dec_refcount s (Some a) = Inr ?s'" by (rule d)
    show "live_instances ?s' a = None \<longleftrightarrow> refcount mi - 1 = 0" by (simp add: z)
    show "live_instances ?s' a = None \<longrightarrow> halt mi" using assms(3) by (simp split: if_splits)
    show "refcount mi - 1 \<noteq> 0 \<longrightarrow> live_instances ?s' a = Some (mi\<lparr>refcount := refcount mi - 1\<rparr>)"
      by (simp add: z)
    show "\<forall>b. b \<noteq> a \<longrightarrow> live_instances ?s' b = live_instances s b" by simp
    show "live_routes ?s' = live_routes s" by simp
    show "\<forall>ra r. live_routes s ra = Some r \<and> route_instance r = Some a \<longrightarrow>
            multi_route_del s (Some ra) = Inr (?s'\<lparr>live_routes := (live_routes s)(ra := None)\<rparr>)"
      using del by blast
  qed
qed

theorem multi_instance_freed_at_zero_witness:
  "live_instances store_0 2 = Some \<lparr>defined = True, halt = True, refcount = 1\<rparr> \<and>
   (\<exists>s'. multi_route_del store_0 (Some 8) = Inr s' \<and> live_instances s' 2 = None \<and>
          live_routes s' 8 = None \<and> live_instances s' 1 = live_instances store_0 1)"
proof -
  let ?mi = "\<lparr>defined = True, halt = True, refcount = 1 :: c_int\<rparr>"
  let ?r = "\<lparr>route_addr = ipv4_10_8_0_6, route_instance = Some 2, flags = 0,
            cache_generation = 0, last_reference = 0\<rparr>"
  have h1: "live_instances store_0 2 = Some ?mi"
    by (simp add: store_0_def)
  have h2: "0 <s refcount ?mi"
    by (simp add: word_sless_alt)
  have h3: "refcount ?mi = 1 \<longrightarrow> halt ?mi"
    by simp
  have r: "live_routes store_0 8 = Some ?r \<and> route_instance ?r = Some 2"
    by (simp add: store_0_def)
  from multi_instance_freed_at_zero [OF h1 h2 h3]
  obtain s' where
    "multi_instance_dec_refcount store_0 (Some 2) = Inr s' \<and>
     (live_instances s' 2 = None \<longleftrightarrow> refcount ?mi - 1 = 0) \<and>
     (live_instances s' 2 = None \<longrightarrow> halt ?mi) \<and>
     (refcount ?mi - 1 \<noteq> 0 \<longrightarrow>
        live_instances s' 2 = Some (?mi\<lparr>refcount := refcount ?mi - 1\<rparr>)) \<and>
     (\<forall>b. b \<noteq> 2 \<longrightarrow> live_instances s' b = live_instances store_0 b) \<and>
     live_routes s' = live_routes store_0 \<and>
     (\<forall>ra r. live_routes store_0 ra = Some r \<and> route_instance r = Some 2 \<longrightarrow>
        multi_route_del store_0 (Some ra) =
        Inr (s'\<lparr>live_routes := (live_routes store_0)(ra := None)\<rparr>))" ..
  then have freed: "live_instances s' 2 = None"
    and other: "\<forall>b. b \<noteq> 2 \<longrightarrow> live_instances s' b = live_instances store_0 b"
    and del: "\<forall>ra r. live_routes store_0 ra = Some r \<and> route_instance r = Some 2 \<longrightarrow>
                multi_route_del store_0 (Some ra) =
                Inr (s'\<lparr>live_routes := (live_routes store_0)(ra := None)\<rparr>)"
    by simp_all
  from del r have "multi_route_del store_0 (Some 8) =
                   Inr (s'\<lparr>live_routes := (live_routes store_0)(8 := None)\<rparr>)"
    by blast
  moreover from other have "live_instances s' 1 = live_instances store_0 1"
    by simp
  ultimately show ?thesis
    using h1 freed by simp
qed

text \<open>
  C4.  When \<open>gettimeofday\<close> succeeds, \<open>multi_get_timeout\<close> returns and the timeout it
  stores into \<open>dest\<close> is at most \<open>REAP_MAX_WAKEUP\<close> = 10 seconds.  When the schedule has no
  earliest wakeup, or the earliest wakeup is 10 seconds or more after the current time,
  \<open>dest\<close> is exactly 10 seconds and 0 microseconds and \<open>m->earliest_wakeup\<close> is NULL.
\<close>

theorem multi_get_timeout_bound:
  "\<exists>m' dest. multi_get_timeout m (Some current) = Inr (m', dest) \<and>
      tv_sec dest \<le> REAP_MAX_WAKEUP \<and>
      tv_usecs dest \<le> REAP_MAX_WAKEUP * 1000000 \<and>
      (schedule_get_earliest_wakeup (schedule m) = None \<or>
       (\<exists>mi tv. schedule_get_earliest_wakeup (schedule m) = Some (mi, tv) \<and>
                 tv_usecs tv - tv_usecs current \<ge> 10 * 1000000) \<longrightarrow>
       dest = \<lparr>tv_sec = 10, tv_usec = 0\<rparr> \<and> earliest_wakeup m' = None)"
proof (cases "schedule_get_earliest_wakeup (schedule m)")
  case None
  then show ?thesis
    by (simp add: multi_get_timeout_def REAP_MAX_WAKEUP_def tv_usecs_def)
next
  case (Some e)
  obtain mi tv where e: "e = (mi, tv)" by (cases e)
  define d where "d = tv_usecs tv - tv_usecs current"
  have dest: "tv_delta current tv = \<lparr>tv_sec = d div 1000000, tv_usec = d mod 1000000\<rparr>"
    by (simp add: tv_delta_def d_def Let_def)
  show ?thesis
  proof (cases "d div 1000000 \<ge> 10")
    case True
    with Some e dest show ?thesis
      by (simp add: multi_get_timeout_def REAP_MAX_WAKEUP_def tv_usecs_def)
  next
    case False
    then have less: "d < 10 * 1000000" by simp
    then have far: "\<not> 10 * 1000000 \<le> tv_usecs tv - tv_usecs current"
      by (simp add: d_def)
    have "tv_usecs (tv_delta current tv) = d"
      by (simp add: dest tv_usecs_def)
    with less have "tv_usecs (tv_delta current tv) \<le> REAP_MAX_WAKEUP * 1000000"
      by (simp add: REAP_MAX_WAKEUP_def)
    moreover have "tv_sec (tv_delta current tv) \<le> REAP_MAX_WAKEUP"
      using False by (simp add: dest REAP_MAX_WAKEUP_def)
    moreover have "multi_get_timeout m (Some current) =
                   Inr (m\<lparr>earliest_wakeup := Some mi\<rparr>, tv_delta current tv)"
      using Some e False by (simp add: multi_get_timeout_def dest REAP_MAX_WAKEUP_def)
    ultimately show ?thesis
      using Some e far by simp
  qed
qed

theorem multi_get_timeout_bound_witness:
  "schedule_get_earliest_wakeup (schedule broker_0) = Some (2, \<lparr>tv_sec = 1003, tv_usec = 250000\<rparr>) \<and>
   tv_usecs \<lparr>tv_sec = 1003, tv_usec = 250000\<rparr> - tv_usecs \<lparr>tv_sec = 990, tv_usec = 0\<rparr>
     \<ge> 10 * 1000000 \<and>
   multi_get_timeout broker_0 (Some \<lparr>tv_sec = 990, tv_usec = 0\<rparr>) =
     Inr (broker_0\<lparr>earliest_wakeup := None\<rparr>, \<lparr>tv_sec = 10, tv_usec = 0\<rparr>) \<and>
   multi_get_timeout broker_0 (Some \<lparr>tv_sec = 1000, tv_usec = 500000\<rparr>) =
     Inr (broker_0\<lparr>earliest_wakeup := Some 2\<rparr>, \<lparr>tv_sec = 2, tv_usec = 750000\<rparr>)"
proof -
  have h: "schedule_get_earliest_wakeup (schedule broker_0) =
           Some (2, \<lparr>tv_sec = 1003, tv_usec = 250000\<rparr>)"
    by (simp add: broker_0_def tv_lt_def)
  from multi_get_timeout_bound [of broker_0 "\<lparr>tv_sec = 990, tv_usec = 0\<rparr>"] h
  show ?thesis
    by (simp add: multi_get_timeout_def tv_delta_def tv_usecs_def REAP_MAX_WAKEUP_def Let_def)
qed

section \<open>Claims on the CRC\<close>

lemma crc_poly_value: "(crc_poly :: 32 word) = 0xedb88320"
  by (simp add: crc_poly_def crc_poly_terms_def)

lemma crc32_no_bytes: "fst (crc32 st crc (Some bytes) 0) = Some crc"
  by (simp add: crc32_def Let_def word_bw_assocs)

text \<open>
  C10.  With \<open>buf\<close> NULL, \<open>crc32\<close> returns 0 for every \<open>crc\<close> and every \<open>len\<close>; it reads
  no byte and leaves the table as it was.
\<close>

theorem crc32_NULL: "crc32 st crc None buf_len = (Some 0, st)"
  by (simp add: crc32_def)

section \<open>Doubling an \<open>int\<close>\<close>

lemma sint_double:
  fixes r :: c_int
  assumes "- (2 ^ 30) \<le> sint r" and "sint r < 2 ^ 30"
  shows "sint (r * 2) = 2 * sint r"
  using assms by (simp add: sint_word_ariths signed_take_bit_int_eq_self)

lemma sint_c_int_less: "sint (r :: c_int) < 2 ^ 31"
  using sint_lt [of r] by simp

section \<open>Claims on the helper directives\<close>

lemma upt_33:
  "[0 ..< 33] =
   [0, 1, 2, 3, 4, 5, 6, 7, 8, 9, 10, 11, 12, 13, 14, 15, 16, 17, 18, 19, 20, 21, 22, 23,
    24, 25, 26, 27, 28, 29, 30, 31, 32]"
  by (simp add: upt_conv_Cons)

lemma netbits_24: "netmask_to_netbits 0x0A080000 0xFFFFFF00 = Some 24"
  by (simp add: netmask_to_netbits_def netbits_to_netmask_def upt_33 mask_eq_exp_minus_1)

lemma netbits_29: "netmask_to_netbits 0x0A080000 0xFFFFFFF8 = Some 29"
  by (simp add: netmask_to_netbits_def netbits_to_netmask_def upt_33 mask_eq_exp_minus_1)

lemma netbits_29_iff:
  "netmask_to_netbits nw nm = Some 29 \<longleftrightarrow> nw AND nm = nw \<and> nm = 0xFFFFFFF8"
  by (auto simp: netmask_to_netbits_def netbits_to_netmask_def upt_33 mask_eq_exp_minus_1
      split: if_splits)

lemma netbits_Some_29_iff:
  assumes "netmask_to_netbits nw nm = Some n"
  shows "n = 29 \<longleftrightarrow> nm = 0xFFFFFFF8"
proof -
  from assms have "nw AND nm = nw"
    by (simp add: netmask_to_netbits_def split: if_splits)
  with assms netbits_29_iff [of nw nm] show ?thesis
    by auto
qed

lemma dev_tun0: "dev_type_enum (Some ''tun0'') None = Inr DEV_TYPE_TUN"
  by (simp add: dev_type_enum_def is_dev_type_def)

lemma server_tun_fields:
  assumes "server_tun n opt = Inr o2"
  shows "ifconfig_local o2 = Some (print_in_addr_t (server_network opt + 1)) \<and>
         ifconfig_remote_netmask o2 = Some (print_in_addr_t (server_network opt + 2)) \<and>
         ifconfig_pool_start o2 = server_network opt + 4 \<and>
         ifconfig_pool_end o2 =
           (server_network opt OR NOT (server_netmask opt)) - (if n = 29 then 0 else 4) \<and>
         n \<le> 29"
  using assms
  by (auto simp: server_tun_def Let_def and_then_def push_option_def helper_add_route_def
      split: if_splits sum.splits)

lemma server_directive_tun:
  assumes "server_directive pool_min DEV_TYPE_TUN opt = Inr o1"
  shows "\<exists>n o2. netmask_to_netbits (server_network opt) (server_netmask opt) = Some n \<and>
           server_tun n opt = Inr o2 \<and>
           (o1 = o2 \<or> o1 = o2\<lparr>proto := PROTO_TCPv4_SERVER\<rparr>)"
  using assms
  by (auto simp: server_directive_def and_then_def Let_def DEV_TYPE_TUN_def DEV_TYPE_TAP_def
      split: if_splits option.splits sum.splits)

lemma helper_client_server_server:
  assumes "server_defined opt"
    and "dev_type_enum (dev opt) (dev_type opt) = Inr d"
    and "helper_client_server pool_min opt = Inr opt'"
  shows "server_directive pool_min d opt = Inr opt'"
  using assms
  by (auto simp: helper_client_server_def and_then_def split: if_splits sum.splits)

text \<open>
  C3, as the code has it.  For every \<open>server NET MASK\<close> configuration with a tun device
  that \<open>helper_client_server\<close> accepts, the expansion sets ifconfig to \<open>NET+1\<close> and
  \<open>NET+2\<close> and the pool to start at \<open>NET+4\<close>; the pool ends at the broadcast address
  \<open>NET | ~MASK\<close> minus 4, except for the netmask of 29 bits (255.255.255.248), where
  \<open>pool_end_reserve\<close> is set to 0 and the pool ends at the broadcast address itself.
\<close>

theorem helper_client_server_tun_pool:
  assumes "server_defined opt"
    and "dev_type_enum (dev opt) (dev_type opt) = Inr DEV_TYPE_TUN"
    and "helper_client_server pool_min opt = Inr opt'"
  shows "ifconfig_local opt' = Some (print_in_addr_t (server_network opt + 1)) \<and>
         ifconfig_remote_netmask opt' = Some (print_in_addr_t (server_network opt + 2)) \<and>
         ifconfig_pool_start opt' = server_network opt + 4 \<and>
         ifconfig_pool_end opt' =
           (server_network opt OR NOT (server_netmask opt)) -
           (if server_netmask opt = 0xFFFFFFF8 then 0 else 4)"
proof -
  from assms have "server_directive pool_min DEV_TYPE_TUN opt = Inr opt'"
    by (rule helper_client_server_server)
  then obtain n o2 where
    n: "netmask_to_netbits (server_network opt) (server_netmask opt) = Some n" and
    t: "server_tun n opt = Inr o2" and
    o: "opt' = o2 \<or> opt' = o2\<lparr>proto := PROTO_TCPv4_SERVER\<rparr>"
    using server_directive_tun by blast
  from server_tun_fields [OF t] netbits_Some_29_iff [OF n] o show ?thesis
    by auto
qed

theorem helper_client_server_tun_pool_witness:
  "server_defined server_24 \<and>
   dev_type_enum (dev server_24) (dev_type server_24) = Inr DEV_TYPE_TUN \<and>
   \<not> isl (helper_client_server 16 server_24) \<and>
   ifconfig_local (projr (helper_client_server 16 server_24)) = Some ''10.8.0.1'' \<and>
   ifconfig_remote_netmask (projr (helper_client_server 16 server_24)) = Some ''10.8.0.2'' \<and>
   print_in_addr_t (ifconfig_pool_start (projr (helper_client_server 16 server_24))) = ''10.8.0.4'' \<and>
   print_in_addr_t (ifconfig_pool_end (projr (helper_client_server 16 server_24))) = ''10.8.0.251''"
proof -
  have h1: "server_defined server_24"
    by (simp add: server_24_def options_0_def)
  have h2: "dev_type_enum (dev server_24) (dev_type server_24) = Inr DEV_TYPE_TUN"
    by (simp add: server_24_def options_0_def dev_tun0)
  have nb: "netmask_to_netbits (server_network server_24) (server_netmask server_24) = Some 24"
    by (simp add: server_24_def options_0_def netbits_24)
  have ok: "\<not> isl (helper_client_server 16 server_24)"
    by (simp add: helper_client_server_def and_then_def h2 h1 server_directive_def nb
        server_tun_def Let_def DEV_TYPE_TUN_def DEV_TYPE_TAP_def print_opt_route_def
        helper_add_route_def push_option_def)
      (simp add: server_24_def options_0_def)
  then have h3: "helper_client_server 16 server_24 = Inr (projr (helper_client_server 16 server_24))"
    by simp
  from helper_client_server_tun_pool [OF h1 h2 h3] h1 h2 ok show ?thesis
    by (simp add: server_24_def options_0_def print_in_addr_t_def)
qed

text \<open>
  C3 as stated fails for \<open>server 10.8.0.0 255.255.255.248\<close> on a tun device: the
  configuration is accepted and the pool ends at 10.8.0.7, the broadcast address, not at
  10.8.0.3.
\<close>

theorem helper_client_server_tun_pool_29:
  "server_defined server_29 \<and>
   dev_type_enum (dev server_29) (dev_type server_29) = Inr DEV_TYPE_TUN \<and>
   \<not> isl (helper_client_server 16 server_29) \<and>
   ifconfig_pool_end (projr (helper_client_server 16 server_29)) = 0x0A080007 \<and>
   (server_network server_29 OR NOT (server_netmask server_29)) - 4 = 0x0A080003 \<and>
   ifconfig_pool_end (projr (helper_client_server 16 server_29)) \<noteq>
     (server_network server_29 OR NOT (server_netmask server_29)) - 4"
proof -
  have h1: "server_defined server_29"
    by (simp add: server_29_def options_0_def)
  have h2: "dev_type_enum (dev server_29) (dev_type server_29) = Inr DEV_TYPE_TUN"
    by (simp add: server_29_def options_0_def dev_tun0)
  have nb: "netmask_to_netbits (server_network server_29) (server_netmask server_29) = Some 29"
    by (simp add: server_29_def options_0_def netbits_29)
  have t: "server_tun 29 server_29 =
           Inr (push_option
                  (helper_add_route (server_network server_29) (server_netmask server_29)
                     (server_29\<lparr>mode := MODE_SERVER, tls_server := True,
                        ifconfig_local := Some (print_in_addr_t (server_network server_29 + 1)),
                        ifconfig_remote_netmask :=
                          Some (print_in_addr_t (server_network server_29 + 2)),
                        ifconfig_pool_defined := True,
                        ifconfig_pool_start := server_network server_29 + 4,
                        ifconfig_pool_end :=
                          (server_network server_29 OR NOT (server_netmask server_29)) - 0\<rparr>))
                  (''route '' @ print_in_addr_t (server_network server_29 + 1)))"
    (is "_ = Inr ?o2")
    by (simp add: server_tun_def Let_def and_then_def print_opt_route_def helper_add_route_def)
      (simp add: server_29_def options_0_def)
  have p: "proto ?o2 = PROTO_UDPv4"
    by (simp add: push_option_def helper_add_route_def server_29_def options_0_def)
  have c: "\<not> client server_29" "\<not> server_bridge_defined server_29"
    "shared_secret_file server_29 = None" "\<not> ifconfig_pool_defined server_29"
    by (simp_all add: server_29_def options_0_def)
  have d: "server_directive 16 DEV_TYPE_TUN server_29 = Inr ?o2"
    unfolding server_directive_def
    by (simp only: c nb t p and_then_def DEV_TYPE_TUN_def DEV_TYPE_TAP_def
        sum.case option.case prod.case Let_def if_False if_True simp_thms)
      simp
  have r: "helper_client_server 16 server_29 = Inr ?o2"
    unfolding helper_client_server_def
    by (simp only: h1 h2 d p and_then_def sum.case if_True) simp
  have ok: "\<not> isl (helper_client_server 16 server_29)"
    by (simp only: r sum.disc simp_thms)
  have e: "ifconfig_pool_end (projr (helper_client_server 16 server_29)) = 0x0A080007"
    by (simp only: r sum.sel) (simp add: push_option_def helper_add_route_def server_29_def options_0_def)
  have b: "(server_network server_29 OR NOT (server_netmask server_29)) - 4 = 0x0A080003"
    by (simp add: server_29_def options_0_def)
  from e b have ne: "ifconfig_pool_end (projr (helper_client_server 16 server_29)) \<noteq>
                     (server_network server_29 OR NOT (server_netmask server_29)) - 4"
    by simp
  from h1 h2 ok e b ne show ?thesis
    by (intro conjI)
qed

text \<open>
  The expansion where the doubling is exact.  With \<open>keepalive_ping\<close> = P > 0 and
  \<open>keepalive_timeout\<close> = R > 0 passing the sanity checks, \<open>helper_keepalive\<close> in server mode
  sets \<open>ping_send_timeout\<close> to P, pushes "ping P" and "ping-restart R" and, for R < 2^30,
  sets \<open>ping_rec_timeout\<close> to 2 \<times> R; in point-to-point mode it sets \<open>ping_send_timeout\<close>
  to P and \<open>ping_rec_timeout\<close> to R and pushes nothing.
\<close>

lemma helper_keepalive_expands:
  assumes "0 <s keepalive_ping opt" and "0 <s keepalive_timeout opt"
    and "\<not> keepalive_timeout opt <s keepalive_ping opt * 2"
    and "ping_send_timeout opt = 0" and "ping_rec_timeout opt = 0"
  shows "\<exists>opt'. helper_keepalive opt = Inr opt' \<and>
           ping_send_timeout opt' = keepalive_ping opt \<and>
           (mode opt = MODE_SERVER \<longrightarrow>
              (sint (keepalive_timeout opt) < 2 ^ 30 \<longrightarrow>
                 sint (ping_rec_timeout opt') = 2 * sint (keepalive_timeout opt)) \<and>
              push_list opt' =
                push_list opt @ [''ping '' @ printf_d (sint (keepalive_ping opt)),
                                 ''ping-restart '' @ printf_d (sint (keepalive_timeout opt))]) \<and>
           (mode opt = MODE_POINT_TO_POINT \<longrightarrow>
              ping_rec_timeout opt' = keepalive_timeout opt \<and> push_list opt' = push_list opt)"
proof -
  from assms(1,2) have pos: "\<not> keepalive_ping opt \<le>s 0" "\<not> keepalive_timeout opt \<le>s 0"
    "keepalive_ping opt \<noteq> 0"
    by (auto simp: word_sle_eq word_sless_alt)
  show ?thesis
  proof (cases "mode opt")
    case MODE_POINT_TO_POINT
    with pos assms(3-5) show ?thesis
      by (simp add: helper_keepalive_def)
  next
    case MODE_SERVER
    have dbl: "sint (keepalive_timeout opt * 2) = 2 * sint (keepalive_timeout opt)"
      if "sint (keepalive_timeout opt) < 2 ^ 30"
      using that assms(2) by (intro sint_double) (simp_all add: word_sless_alt)
    from MODE_SERVER pos assms(3-5) dbl show ?thesis
      by (simp add: helper_keepalive_def Let_def push_option_def print_str_int_def)
  qed
qed

lemma helper_keepalive_expands_examples:
  "0 <s keepalive_ping (keepalive_10_60\<lparr>mode := MODE_SERVER\<rparr>) \<and>
   0 <s keepalive_timeout (keepalive_10_60\<lparr>mode := MODE_SERVER\<rparr>) \<and>
   \<not> isl (helper_keepalive (keepalive_10_60\<lparr>mode := MODE_SERVER\<rparr>)) \<and>
   ping_send_timeout (projr (helper_keepalive (keepalive_10_60\<lparr>mode := MODE_SERVER\<rparr>))) = 10 \<and>
   sint (ping_rec_timeout (projr (helper_keepalive (keepalive_10_60\<lparr>mode := MODE_SERVER\<rparr>)))) = 120 \<and>
   push_list (projr (helper_keepalive (keepalive_10_60\<lparr>mode := MODE_SERVER\<rparr>))) =
     [''ping 10'', ''ping-restart 60'']"
proof -
  let ?k = "keepalive_10_60\<lparr>mode := MODE_SERVER\<rparr>"
  have h: "0 <s keepalive_ping ?k" "0 <s keepalive_timeout ?k"
    "\<not> keepalive_timeout ?k <s keepalive_ping ?k * 2"
    "ping_send_timeout ?k = 0" "ping_rec_timeout ?k = 0"
    by (simp_all add: keepalive_10_60_def options_0_def word_sless_alt)
  have v: "mode ?k = MODE_SERVER" "sint (keepalive_timeout ?k) = 60"
    "sint (keepalive_ping ?k) = 10" "keepalive_ping ?k = 10" "push_list ?k = []"
    by (simp_all add: keepalive_10_60_def options_0_def)
  from helper_keepalive_expands [OF h]
  obtain opt' where r: "helper_keepalive ?k = Inr opt'"
    and s: "ping_send_timeout opt' = keepalive_ping ?k"
    and m: "mode ?k = MODE_SERVER \<longrightarrow>
              (sint (keepalive_timeout ?k) < 2 ^ 30 \<longrightarrow>
                 sint (ping_rec_timeout opt') = 2 * sint (keepalive_timeout ?k)) \<and>
              push_list opt' =
                push_list ?k @ [''ping '' @ printf_d (sint (keepalive_ping ?k)),
                                ''ping-restart '' @ printf_d (sint (keepalive_timeout ?k))]"
    by blast
  from m v have "sint (ping_rec_timeout opt') = 120"
    and "push_list opt' = [''ping 10'', ''ping-restart 60'']"
    by (simp_all add: printf_d_def)
  with r s v h show ?thesis
    by simp
qed

text \<open>
  C2.  With \<open>keepalive_ping\<close> = P > 0 and \<open>keepalive_timeout\<close> = R > 0 passing the sanity
  checks, \<open>helper_keepalive\<close> in server mode is to set \<open>ping_send_timeout\<close> to P and
  \<open>ping_rec_timeout\<close> to 2 \<times> R and to push "ping P" and "ping-restart R" (in
  point-to-point mode, to set P and R verbatim).  For \<open>keepalive 1 1073741824\<close> in server
  mode it does not: the sanity checks pass, the product \<open>keepalive_timeout * 2\<close> does not
  fit the \<open>int\<close>, and the value stored in \<open>ping_rec_timeout\<close> is \<open>INT_MIN\<close>, not
  2 \<times> R = 2147483648.
\<close>

theorem helper_keepalive_doubling_overflows:
  "0 <s keepalive_ping keepalive_1_2p30 \<and> 0 <s keepalive_timeout keepalive_1_2p30 \<and>
   mode keepalive_1_2p30 = MODE_SERVER \<and>
   \<not> isl (helper_keepalive keepalive_1_2p30) \<and>
   sint (ping_rec_timeout (projr (helper_keepalive keepalive_1_2p30))) = - 2147483648 \<and>
   2 * sint (keepalive_timeout keepalive_1_2p30) = 2147483648"
  by (simp add: helper_keepalive_def keepalive_1_2p30_def options_0_def word_sless_alt
      word_sle_eq Let_def push_option_def)

theorem helper_keepalive_doubling_overflows_witness:
  "sint (ping_rec_timeout (projr (helper_keepalive keepalive_1_2p30))) \<noteq>
   2 * sint (keepalive_timeout keepalive_1_2p30)"
  using helper_keepalive_doubling_overflows by simp

text \<open>
  The sanity checks where the doubling is exact.  \<open>helper_keepalive\<close> ends with a usage
  error, and expands nothing, whenever a keepalive parameter is present and either
  parameter is not greater than 0, or \<open>keepalive_ping\<close> is below 2^30 and twice
  \<open>keepalive_ping\<close> exceeds \<open>keepalive_timeout\<close>.  When both parameters are positive, twice
  \<open>keepalive_ping\<close> is at most \<open>keepalive_timeout\<close> and no ping option is set, it returns
  without error.
\<close>

lemma helper_keepalive_sanity:
  "((keepalive_ping opt \<noteq> 0 \<or> keepalive_timeout opt \<noteq> 0) \<and>
    (sint (keepalive_ping opt) \<le> 0 \<or> sint (keepalive_timeout opt) \<le> 0 \<or>
     sint (keepalive_ping opt) < 2 ^ 30 \<and>
     sint (keepalive_timeout opt) < 2 * sint (keepalive_ping opt)) \<longrightarrow>
    (\<exists>m. helper_keepalive opt = Inl (M_USAGE m))) \<and>
   (0 < sint (keepalive_ping opt) \<and> 0 < sint (keepalive_timeout opt) \<and>
    2 * sint (keepalive_ping opt) \<le> sint (keepalive_timeout opt) \<and>
    ping_send_timeout opt = 0 \<and> ping_rec_timeout opt = 0 \<longrightarrow>
    (\<exists>opt'. helper_keepalive opt = Inr opt'))"
proof (intro conjI impI)
  assume a: "(keepalive_ping opt \<noteq> 0 \<or> keepalive_timeout opt \<noteq> 0) \<and>
    (sint (keepalive_ping opt) \<le> 0 \<or> sint (keepalive_timeout opt) \<le> 0 \<or>
     sint (keepalive_ping opt) < 2 ^ 30 \<and>
     sint (keepalive_timeout opt) < 2 * sint (keepalive_ping opt))"
  show "\<exists>m. helper_keepalive opt = Inl (M_USAGE m)"
  proof (cases "sint (keepalive_ping opt) \<le> 0 \<or> sint (keepalive_timeout opt) \<le> 0")
    case True
    with a show ?thesis
      by (simp add: helper_keepalive_def word_sle_eq)
  next
    case False
    with a have b: "sint (keepalive_ping opt) < 2 ^ 30"
      "sint (keepalive_timeout opt) < 2 * sint (keepalive_ping opt)"
      by auto
    from False b(1) have "sint (keepalive_ping opt * 2) = 2 * sint (keepalive_ping opt)"
      by (intro sint_double) simp_all
    with b(2) have "keepalive_timeout opt <s keepalive_ping opt * 2"
      by (simp add: word_sless_alt)
    with a False show ?thesis
      by (simp add: helper_keepalive_def word_sle_eq)
  qed
next
  assume a: "0 < sint (keepalive_ping opt) \<and> 0 < sint (keepalive_timeout opt) \<and>
    2 * sint (keepalive_ping opt) \<le> sint (keepalive_timeout opt) \<and>
    ping_send_timeout opt = 0 \<and> ping_rec_timeout opt = 0"
  from a sint_c_int_less [of "keepalive_timeout opt"]
  have "sint (keepalive_ping opt) < 2 ^ 30"
    by simp
  with a have "sint (keepalive_ping opt * 2) = 2 * sint (keepalive_ping opt)"
    by (intro sint_double) simp_all
  with a have r: "\<not> keepalive_timeout opt <s keepalive_ping opt * 2"
    by (simp add: word_sless_alt)
  from a have p: "\<not> keepalive_ping opt \<le>s 0" "\<not> keepalive_timeout opt \<le>s 0"
    by (simp_all add: word_sle_eq)
  from a p r show "\<exists>opt'. helper_keepalive opt = Inr opt'"
    by (cases "mode opt") (simp_all add: helper_keepalive_def Let_def)
qed

lemma helper_keepalive_sanity_examples:
  "keepalive_ping keepalive_10_15 \<noteq> 0 \<and>
   sint (keepalive_ping keepalive_10_15) < 2 ^ 30 \<and>
   sint (keepalive_timeout keepalive_10_15) < 2 * sint (keepalive_ping keepalive_10_15) \<and>
   isl (helper_keepalive keepalive_10_15) \<and>
   0 < sint (keepalive_ping keepalive_10_60) \<and> 0 < sint (keepalive_timeout keepalive_10_60) \<and>
   2 * sint (keepalive_ping keepalive_10_60) \<le> sint (keepalive_timeout keepalive_10_60) \<and>
   ping_send_timeout keepalive_10_60 = 0 \<and> ping_rec_timeout keepalive_10_60 = 0 \<and>
   \<not> isl (helper_keepalive keepalive_10_60)"
proof -
  have h1: "keepalive_ping keepalive_10_15 \<noteq> 0"
    "sint (keepalive_ping keepalive_10_15) < 2 ^ 30"
    "sint (keepalive_timeout keepalive_10_15) < 2 * sint (keepalive_ping keepalive_10_15)"
    by (simp_all add: keepalive_10_15_def options_0_def)
  have h2: "0 < sint (keepalive_ping keepalive_10_60)"
    "0 < sint (keepalive_timeout keepalive_10_60)"
    "2 * sint (keepalive_ping keepalive_10_60) \<le> sint (keepalive_timeout keepalive_10_60)"
    "ping_send_timeout keepalive_10_60 = 0" "ping_rec_timeout keepalive_10_60 = 0"
    by (simp_all add: keepalive_10_60_def options_0_def)
  from helper_keepalive_sanity [of keepalive_10_15] h1
  have "\<exists>m. helper_keepalive keepalive_10_15 = Inl (M_USAGE m)"
    by blast
  then have e: "isl (helper_keepalive keepalive_10_15)"
    by auto
  from helper_keepalive_sanity [of keepalive_10_60] h2
  have "\<exists>opt'. helper_keepalive keepalive_10_60 = Inr opt'"
    by blast
  then have n: "\<not> isl (helper_keepalive keepalive_10_60)"
    by auto
  from h1 h2 e n show ?thesis
    by (intro conjI)
qed

text \<open>
  C8.  \<open>helper_keepalive\<close> is to end with a usage error whenever a keepalive parameter
  is present and \<open>keepalive_ping\<close> \<times> 2 exceeds \<open>keepalive_timeout\<close>.  For
  \<open>keepalive 1073741824 5\<close> it does not: both parameters are positive and twice the first
  exceeds the second, but the product computed in \<open>int\<close> is \<open>INT_MIN\<close>, the ratio test
  does not fire, and the options are expanded without error.
\<close>

theorem helper_keepalive_ratio_overflows:
  "0 < sint (keepalive_ping keepalive_2p30_5) \<and> 0 < sint (keepalive_timeout keepalive_2p30_5) \<and>
   sint (keepalive_timeout keepalive_2p30_5) < 2 * sint (keepalive_ping keepalive_2p30_5) \<and>
   sint (keepalive_ping keepalive_2p30_5 * 2) = - 2147483648 \<and>
   \<not> isl (helper_keepalive keepalive_2p30_5) \<and>
   sint (ping_send_timeout (projr (helper_keepalive keepalive_2p30_5))) = 1073741824 \<and>
   sint (ping_rec_timeout (projr (helper_keepalive keepalive_2p30_5))) = 5"
  by (simp add: helper_keepalive_def keepalive_2p30_5_def options_0_def word_sless_alt
      word_sle_eq)

theorem helper_keepalive_ratio_overflows_witness:
  "\<not> (\<exists>m. helper_keepalive keepalive_2p30_5 = Inl (M_USAGE m))"
proof
  assume "\<exists>m. helper_keepalive keepalive_2p30_5 = Inl (M_USAGE m)"
  then have "isl (helper_keepalive keepalive_2p30_5)"
    by auto
  with helper_keepalive_ratio_overflows show False
    by simp
qed


end
